theory Spec2Isabelle
  imports Main "HOL-Library.AList" "HOL-Library.Sublist" "HOL-Library.Word"
begin

section \<open>The event pipeline of \<open>pkg/whatsapp/whatsapp.go\<close>\<close>

text \<open>
  A shallow embedding of the Go package \<open>whatsapp\<close>: the JID parser, the identity
  filters, media extraction, the two webhook forwarders and the event handler.
  Go strings are byte strings and are modelled as \<open>string\<close> (a list of bytes).
  What the package obtains from outside (the protocol client, the HTTP client, the file
  system, the clock, the standard library's mime table) is a field of the record
  \<open>env\<close>; what the package does to the outside is appended to a log in the record
  \<open>world\<close>. Writes to the process log (\<open>log.Infof\<close>, \<open>logrus\<close>, \<open>fmt.Printf\<close>) are
  not modelled.
\<close>

subsection \<open>Standard library functions on strings\<close>

text \<open>\<open>strings.Contains(s, substr)\<close>: some suffix of \<open>s\<close> starts with \<open>substr\<close>.\<close>

fun Contains :: "string \<Rightarrow> string \<Rightarrow> bool" where
  "Contains [] substr = (substr = [])"
| "Contains (c # cs) substr = (take (length substr) (c # cs) = substr \<or> Contains cs substr)"

text \<open>\<open>strings.ContainsRune(s, r)\<close> for an ASCII rune: the byte occurs in \<open>s\<close>.\<close>

definition ContainsRune :: "string \<Rightarrow> char \<Rightarrow> bool" where
  "ContainsRune s r = (r \<in> set s)"

text \<open>
  \<open>strings.Split(s, sep)\<close> for a separator of one byte: the pieces between the
  separators, one more piece than there are separators (so never an empty slice).
\<close>

fun Split :: "string \<Rightarrow> char \<Rightarrow> string list" where
  "Split [] sep = [[]]"
| "Split (c # cs) sep =
     (if c = sep then [] # Split cs sep
      else (case Split cs sep of
              [] \<Rightarrow> [[c]]
            | p # ps \<Rightarrow> (c # p) # ps))"

text \<open>\<open>%d\<close> of \<open>fmt.Sprintf\<close>: a decimal numeral, with a minus sign when negative.\<close>

definition digit_char :: "nat \<Rightarrow> char" where
  "digit_char d = ''0123456789'' ! d"

fun show_nat :: "nat \<Rightarrow> string" where
  "show_nat n = (if n < 10 then [digit_char n] else show_nat (n div 10) @ [digit_char (n mod 10)])"

declare show_nat.simps [simp del]

definition show_int :: "int \<Rightarrow> string" where
  "show_int i = (if i < 0 then CHR ''-'' # show_nat (nat (- i)) else show_nat (nat i))"

text \<open>
  The regular expression \<open>\d+\<close> of \<open>extractPhoneNumber\<close>: \<open>\d\<close> is an ASCII digit, and
  \<open>FindAllString(s, -1)\<close> returns the maximal runs of digits of \<open>s\<close> from left to right.
\<close>

definition is_digit :: "char \<Rightarrow> bool" where
  "is_digit c = (c \<in> set ''0123456789'')"

function FindAllString_digits :: "string \<Rightarrow> string list" where
  "FindAllString_digits [] = []"
| "FindAllString_digits (c # cs) =
     (if is_digit c
      then (c # takeWhile is_digit cs) # FindAllString_digits (dropWhile is_digit cs)
      else FindAllString_digits cs)"
  by pat_completeness auto
termination
  by (relation "measure length") (auto simp: length_dropWhile_le less_Suc_eq_le)

subsection \<open>Errors and panics\<close>

text \<open>
  A Go \<open>error\<close> is \<open>error option\<close> (\<open>None\<close> is \<open>nil\<close>). \<open>WebhookError\<close> and
  \<open>ErrInvalidJID\<close> are the kinds of the package \<open>pkg/error\<close> that this file creates;
  \<open>LibError\<close> is an error a library call returned, passed on as it is. A function that
  can panic returns \<open>'a go_result\<close>.
\<close>

datatype error = WebhookError string | ErrInvalidJID | LibError string

datatype 'a go_result = Panic string | Return 'a

fun error_text :: "error \<Rightarrow> string" where
  "error_text (WebhookError s) = s"
| "error_text ErrInvalidJID = ''invalid JID''"
| "error_text (LibError s) = s"

subsection \<open>\<open>ParseJID\<close>\<close>

record jid =
  User :: string
  Server :: string

text \<open>
  The parts of whatsmeow's package \<open>types\<close> that \<open>ParseJID\<close> uses: the constant
  \<open>DefaultUserServer\<close> and the library's own \<open>types.ParseJID\<close>, which returns a JID and
  an error. \<open>types.NewJID\<close> fills the two fields.
\<close>

record types_lib =
  DefaultUserServer :: string
  types_ParseJID :: "string \<Rightarrow> jid \<times> error option"

definition NewJID :: "string \<Rightarrow> string \<Rightarrow> jid" where
  "NewJID user server = \<lparr>User = user, Server = server\<rparr>"

text \<open>
  \<open>arg[0]\<close> is read before anything else: on the empty string the index is out of
  range and the function panics.
\<close>

definition ParseJID :: "types_lib \<Rightarrow> string \<Rightarrow> (jid \<times> error option) go_result" where
  "ParseJID lib arg =
     (case arg of
        [] \<Rightarrow> Panic ''runtime error: index out of range [0] with length 0''
      | c # rest \<Rightarrow>
          (let arg1 = (if c = CHR ''+'' then rest else arg) in
           if \<not> ContainsRune arg1 CHR ''@''
           then Return (NewJID arg1 (DefaultUserServer lib), None)
           else (case types_ParseJID lib arg1 of
                   (recipient, err) \<Rightarrow>
                     if err \<noteq> None then Return (recipient, Some ErrInvalidJID)
                     else if User recipient = [] then Return (recipient, Some ErrInvalidJID)
                     else Return (recipient, None))))"

subsection \<open>Identity filters\<close>

definition isGroupJid :: "string \<Rightarrow> bool" where
  "isGroupJid j = Contains j ''@g.us''"

definition extractPhoneNumber :: "string \<Rightarrow> string" where
  "extractPhoneNumber j =
     (let matches = FindAllString_digits j in
      if length matches > 0 then matches ! 0 else [])"

text \<open>
  \<open>isFromMySelf\<close> compares with \<open>cli.Store.ID.String()\<close>, the address of the logged-in
  account; the model takes that string as \<open>own\<close>.
\<close>

definition isFromMySelf :: "string \<Rightarrow> string \<Rightarrow> bool" where
  "isFromMySelf own j = (extractPhoneNumber j = extractPhoneNumber own)"

subsection \<open>Media references and the outside world\<close>

text \<open>
  The five attachment kinds of \<open>waE2E\<close> that \<open>ExtractMedia\<close> distinguishes, each with
  the two getters the function reads and the opaque download handle; any other
  implementation of \<open>whatsmeow.DownloadableMessage\<close> is \<open>OtherDownloadable\<close>.
  Audio and sticker messages have no caption: \<open>ExtractMedia\<close> never reads it for them.
\<close>

record media_fields =
  GetMimetype :: string
  GetCaption :: string
  GetDirectPath :: string

datatype media =
    ImageMessage media_fields
  | AudioMessage media_fields
  | VideoMessage media_fields
  | StickerMessage media_fields
  | DocumentMessage media_fields
  | OtherDownloadable string

record ExtractedMedia =
  MediaPath :: string
  MimeType :: string
  Caption :: string

text \<open>
  The result of \<open>client.Do\<close>: an error (client policy, or a failure to speak HTTP), or
  a response with its status code. A response with a status outside 2xx is not an error
  of \<open>client.Do\<close>.
\<close>

datatype http_result = DoError string | DoResponse nat

text \<open>
  The receipt types of whatsmeow's package \<open>types\<close> that the handler compares with.
  \<open>ReceiptType\<close> is a string type there, and the constants are the texts of the protocol:
  \<open>read\<close>, \<open>read-self\<close>, and the empty string for a delivered receipt. A value of the
  type is marshalled as the JSON string of its text.
\<close>

type_synonym ReceiptType = string

definition ReceiptTypeDelivered :: ReceiptType where
  "ReceiptTypeDelivered = []"

definition ReceiptTypeRead :: ReceiptType where
  "ReceiptTypeRead = ''read''"

definition ReceiptTypeReadSelf :: ReceiptType where
  "ReceiptTypeReadSelf = ''read-self''"

record evtReaction =
  reaction_ID :: string
  reaction_Message :: string

record evtMessage =
  message_ID :: string
  message_Text :: string
  message_RepliedId :: string

text \<open>
  The values the two forwarders put into the \<open>map[string]interface{}\<close> they marshal.
  \<open>JMedia\<close> is a raw (undownloaded) media message, \<open>JProto\<close> any other protobuf
  sub-message, \<open>JNull\<close> a nil pointer or nil interface.
\<close>

datatype jvalue =
    JNull
  | JBool bool
  | JString string
  | JStringList "string list"
  | JTime int
  | JMedia media
  | JExtractedMedia ExtractedMedia
  | JEvtMessage evtMessage
  | JEvtReaction evtReaction
  | JProto string

type_synonym body = "(string \<times> jvalue) list"

record history_sync =
  SyncType :: string
  Data :: string

text \<open>
  What the package reads from outside. Library errors are their message texts.
  \<open>Now_Unix\<close> and \<open>uuid_NewString\<close> are indexed by the number of file names generated
  so far, so that each call of \<open>ExtractMedia\<close> reads a value of its own.
\<close>

record env =
  Download :: "media \<Rightarrow> string + string"
  ExtensionsByType :: "string \<Rightarrow> string list \<times> string option"
  Now_Unix :: "nat \<Rightarrow> int"
  uuid_NewString :: "nat \<Rightarrow> string"
  WriteFile :: "string \<Rightarrow> string \<Rightarrow> string option"
  json_Marshal :: "body \<Rightarrow> string + string"
  NewRequest :: "string \<Rightarrow> string option"
  client_Do :: "string \<Rightarrow> string \<Rightarrow> http_result"
  OpenFile :: "string \<Rightarrow> string option"
  Encode :: "history_sync \<Rightarrow> string + string"
  Store_ID :: string
  Store_PushName :: string
  startupTime :: int
  WAPatchCriticalBlock :: string

record config =
  PathStorages :: string
  PathMedia :: string
  WhatsappAutoReplyMessage :: string
  WhatsappWebhook :: string

datatype broadcast = LOGIN_SUCCESS string | LIST_DEVICES

text \<open>
  What the package has done to the outside, each a log in the order of the calls:
  \<open>downloads\<close> the arguments of \<open>cli.Download\<close>, \<open>written\<close> the files written (path and
  content), \<open>opened\<close> the files opened with \<open>O_CREATE\<close>, \<open>posts\<close> the requests given
  to \<open>client.Do\<close> (the URL, the map that was marshalled and the marshalled text that is the
  request's body), \<open>sent\<close> the calls of \<open>cli.SendMessage\<close> (recipient
  and conversation text), \<open>presences\<close> the number of calls of \<open>cli.SendPresence\<close>.
  \<open>historySyncID\<close> is the package's \<open>int32\<close> counter, \<open>generated\<close> the number of file
  names generated, \<open>exited\<close> whether \<open>os.Exit\<close> was called and \<open>panicked\<close> the panic
  that ended the handler, if any.
\<close>

record world =
  downloads :: "media list"
  written :: "(string \<times> string) list"
  opened :: "string list"
  posts :: "(string \<times> body \<times> string) list"
  sent :: "(string \<times> string) list"
  presences :: nat
  broadcasts :: "broadcast list"
  historySyncID :: "32 word"
  generated :: nat
  exited :: bool
  panicked :: "string option"

text \<open>The state at process start: nothing done, the counter at Go's zero value.\<close>

definition start_world :: world where
  "start_world =
     \<lparr>downloads = [], written = [], opened = [], posts = [], sent = [], presences = 0,
      broadcasts = [], historySyncID = 0, generated = 0, exited = False, panicked = None\<rparr>"

subsection \<open>\<open>ExtractMedia\<close>\<close>

text \<open>
  Lines 501 to 506: the extension of the file name. \<open>lookup\<close> is
  \<open>mime.ExtensionsByType\<close>, which returns the extensions and an error. The first branch
  is taken when the error is \<^emph>\<open>not\<close> nil and the slice is not empty (\<open>err != nil &&
  len(ext) > 0\<close>); otherwise the mime type is split at \<open>/\<close>.
\<close>

definition file_extension :: "(string \<Rightarrow> string list \<times> string option) \<Rightarrow> string \<Rightarrow> string" where
  "file_extension lookup mimeType =
     (case lookup mimeType of
        (ext, err) \<Rightarrow>
          if err \<noteq> None \<and> length ext > 0 then ext ! 0
          else (let parts = Split mimeType CHR ''/'' in
                if length parts > 1 then ''.'' @ parts ! (length parts - 1) else []))"

text \<open>The type switch of lines 485 to 499: mime type and caption by attachment kind.\<close>

fun media_info :: "media \<Rightarrow> ExtractedMedia" where
  "media_info (ImageMessage m) = \<lparr>MediaPath = [], MimeType = GetMimetype m, Caption = GetCaption m\<rparr>"
| "media_info (AudioMessage m) = \<lparr>MediaPath = [], MimeType = GetMimetype m, Caption = []\<rparr>"
| "media_info (VideoMessage m) = \<lparr>MediaPath = [], MimeType = GetMimetype m, Caption = GetCaption m\<rparr>"
| "media_info (StickerMessage m) = \<lparr>MediaPath = [], MimeType = GetMimetype m, Caption = []\<rparr>"
| "media_info (DocumentMessage m) = \<lparr>MediaPath = [], MimeType = GetMimetype m, Caption = GetCaption m\<rparr>"
| "media_info (OtherDownloadable h) = \<lparr>MediaPath = [], MimeType = [], Caption = []\<rparr>"

definition empty_media :: ExtractedMedia where
  "empty_media = \<lparr>MediaPath = [], MimeType = [], Caption = []\<rparr>"

text \<open>
  \<open>ExtractMedia\<close> returns the struct and the error, both also when it fails; the
  argument \<open>None\<close> is the nil interface. (An interface that wraps a nil pointer is not
  the nil interface; both callers in this file test the pointer before they call, so
  the function is never given one here.)
\<close>

definition ExtractMedia ::
  "env \<Rightarrow> string \<Rightarrow> media option \<Rightarrow> world \<Rightarrow> (ExtractedMedia \<times> error option) \<times> world" where
  "ExtractMedia e storageLocation mediaFile w =
     (case mediaFile of
        None \<Rightarrow> ((empty_media, None), w)
      | Some m \<Rightarrow>
          (let w1 = w\<lparr>downloads := downloads w @ [m]\<rparr> in
           case Download e m of
             Inl err \<Rightarrow> ((empty_media, Some (LibError err)), w1)
           | Inr bytes \<Rightarrow>
               (let info = media_info m;
                    extension = file_extension (ExtensionsByType e) (MimeType info);
                    path = storageLocation @ ''/'' @ show_int (Now_Unix e (generated w1))
                             @ ''-'' @ uuid_NewString e (generated w1) @ extension;
                    extracted = info\<lparr>MediaPath := path\<rparr>;
                    w2 = w1\<lparr>generated := generated w1 + 1\<rparr>
                in case WriteFile e path bytes of
                     Some err \<Rightarrow> ((extracted, Some (LibError err)), w2)
                   | None \<Rightarrow> ((extracted, None), w2\<lparr>written := written w2 @ [(path, bytes)]\<rparr>))))"

subsection \<open>Events\<close>

text \<open>
  The message of a \<open>events.Message\<close>, by the getters the forwarder calls. A getter of a
  string returns the empty string when the field is absent; a sub-message is \<open>None\<close>
  when its pointer is nil. The client hands over every message event with a message
  that is not nil.
\<close>

record context_info =
  GetStanzaID :: string
  QuotedMessage_GetConversation :: string
  GetIsForwarded :: bool

record extended_text_message =
  GetText :: string
  ContextInfo :: "context_info option"

record reaction_message =
  Reaction_GetText :: string
  Reaction_GetKey_GetID :: string

record message =
  GetConversation :: string
  ExtendedTextMessage :: "extended_text_message option"
  ReactionMessage :: "reaction_message option"
  GetImageMessage :: "media_fields option"
  GetStickerMessage :: "media_fields option"
  GetVideoMessage :: "media_fields option"
  GetAudioMessage :: "media_fields option"
  GetDocumentMessage :: "media_fields option"
  GetContactMessage :: "string option"
  GetListMessage :: "string option"
  GetLiveLocationMessage :: "string option"
  GetLocationMessage :: "string option"
  GetOrderMessage :: "string option"
  GetViewOnceMessage :: "string option"

text \<open>
  \<open>Info_SourceString\<close> is \<open>evt.Info.SourceString()\<close>, \<open>Info_Chat_String\<close> is
  \<open>evt.Info.Chat.String()\<close>; \<open>Info_Sender\<close> is the sender's JID, given to
  \<open>cli.SendMessage\<close>.
\<close>

record message_event =
  Info_ID :: string
  Info_PushName :: string
  Info_SourceString :: string
  Info_Chat_String :: string
  Info_Sender :: string
  Message :: message

record receipt_event =
  Receipt_SourceString :: string
  Timestamp :: int
  Type :: ReceiptType
  MessageIDs :: "string list"

datatype event =
    events_DeleteForMe
  | events_AppStateSyncComplete string
  | events_PairSuccess string
  | events_LoggedOut
  | events_Connected
  | events_PushNameSetting
  | events_StreamReplaced
  | events_Message message_event
  | events_Receipt receipt_event
  | events_Presence
  | events_HistorySync history_sync
  | events_AppState
  | events_Other

subsection \<open>Webhook delivery\<close>

text \<open>
  The last lines of both forwarders (326 to 339 and 434 to 447): marshal the body,
  build the request, hand it to \<open>client.Do\<close> once. The response is dropped unread; only
  the error of \<open>client.Do\<close> is looked at.
\<close>

definition post_body :: "env \<Rightarrow> config \<Rightarrow> body \<Rightarrow> world \<Rightarrow> error option \<times> world" where
  "post_body e cfg b w =
     (case json_Marshal e b of
        Inl err \<Rightarrow> (Some (WebhookError (''Failed to marshal body: '' @ err)), w)
      | Inr postBody \<Rightarrow>
          (case NewRequest e (WhatsappWebhook cfg) of
             Some err \<Rightarrow> (Some (WebhookError (''error when create http object '' @ err)), w)
           | None \<Rightarrow>
               (let w1 = w\<lparr>posts := posts w @ [(WhatsappWebhook cfg, b, postBody)]\<rparr> in
                case client_Do e (WhatsappWebhook cfg) postBody of
                  DoError err \<Rightarrow> (Some (WebhookError (''error when submit webhook '' @ err)), w1)
                | DoResponse status \<Rightarrow> (None, w1))))"

definition forwardReceipt :: "env \<Rightarrow> config \<Rightarrow> receipt_event \<Rightarrow> world \<Rightarrow> error option \<times> world" where
  "forwardReceipt e cfg evt w =
     (let b = [(''source'', JString (Receipt_SourceString evt)),
               (''timestamp'', JTime (Timestamp evt)),
               (''type'', JString (Type evt)),
               (''ids'', JStringList (MessageIDs evt))]
      in post_body e cfg b w)"

text \<open>A pointer to a media message as a value of the map: \<open>null\<close> when it is nil.\<close>

definition media_value :: "media option \<Rightarrow> jvalue" where
  "media_value m = (case m of None \<Rightarrow> JNull | Some x \<Rightarrow> JMedia x)"

definition proto_value :: "string option \<Rightarrow> jvalue" where
  "proto_value m = (case m of None \<Rightarrow> JNull | Some x \<Rightarrow> JProto x)"

text \<open>Lines 352 to 396 of \<open>forwardToWebhook\<close>: the body before any extraction.\<close>

definition message_body :: "message_event \<Rightarrow> body" where
  "message_body evt =
     (let msg = Message evt;
          imageMedia = map_option ImageMessage (GetImageMessage msg);
          stickerMedia = map_option StickerMessage (GetStickerMessage msg);
          videoMedia = map_option VideoMessage (GetVideoMessage msg);
          audioMedia = map_option AudioMessage (GetAudioMessage msg);
          documentMedia = map_option DocumentMessage (GetDocumentMessage msg);
          extendedMessage = (case ExtendedTextMessage msg of None \<Rightarrow> [] | Some x \<Rightarrow> GetText x);
          contextInfo = (case ExtendedTextMessage msg of None \<Rightarrow> None | Some x \<Rightarrow> ContextInfo x);
          message0 = \<lparr>message_ID = Info_ID evt, message_Text = GetConversation msg,
                      message_RepliedId = []\<rparr>;
          message1 = (if extendedMessage \<noteq> []
                      then message0\<lparr>message_Text := extendedMessage,
                             message_RepliedId :=
                               (case contextInfo of None \<Rightarrow> [] | Some c \<Rightarrow> GetStanzaID c)\<rparr>
                      else message0);
          quotedmessage = (case contextInfo of
                             None \<Rightarrow> JNull
                           | Some c \<Rightarrow>
                               if QuotedMessage_GetConversation c \<noteq> []
                               then JString (QuotedMessage_GetConversation c) else JNull);
          forwarded = (case contextInfo of None \<Rightarrow> False | Some c \<Rightarrow> GetIsForwarded c);
          waReaction = (case ReactionMessage msg of
                          None \<Rightarrow> \<lparr>reaction_ID = [], reaction_Message = []\<rparr>
                        | Some r \<Rightarrow> \<lparr>reaction_ID = Reaction_GetKey_GetID r,
                                     reaction_Message = Reaction_GetText r\<rparr>)
      in [(''audio'', media_value audioMedia),
          (''contact'', proto_value (GetContactMessage msg)),
          (''document'', media_value documentMedia),
          (''forwarded'', JBool forwarded),
          (''from'', JString (Info_SourceString evt)),
          (''image'', media_value imageMedia),
          (''list'', proto_value (GetListMessage msg)),
          (''live_location'', proto_value (GetLiveLocationMessage msg)),
          (''location'', proto_value (GetLocationMessage msg)),
          (''message'', JEvtMessage message1),
          (''order'', proto_value (GetOrderMessage msg)),
          (''pushname'', JString (Info_PushName evt)),
          (''quoted_message'', quotedmessage),
          (''reaction'', JEvtReaction waReaction),
          (''sticker'', media_value stickerMedia),
          (''video'', media_value videoMedia),
          (''view_once'', proto_value (GetViewOnceMessage msg))])"

text \<open>
  One of the five blocks of lines 398 to 432: when the media message is there, extract
  it below \<open>config.PathMedia\<close>; on an error return a \<open>WebhookError\<close>, otherwise store
  what \<open>ExtractMedia\<close> returned (the whole struct, which the source calls \<open>path\<close>) under
  the key.
\<close>

definition extract_into ::
  "env \<Rightarrow> config \<Rightarrow> string \<Rightarrow> media option \<Rightarrow> body \<Rightarrow> world \<Rightarrow> (error + body) \<times> world" where
  "extract_into e cfg k mediaFile b w =
     (case mediaFile of
        None \<Rightarrow> (Inr b, w)
      | Some m \<Rightarrow>
          (case ExtractMedia e (PathMedia cfg) (Some m) w of
             ((path, Some err), w1) \<Rightarrow>
               (Inl (WebhookError (''Failed to download '' @ k @ '': '' @ error_text err)), w1)
           | ((path, None), w1) \<Rightarrow>
               (Inr (AList.update k (JExtractedMedia path) b), w1)))"

definition forwardToWebhook :: "env \<Rightarrow> config \<Rightarrow> message_event \<Rightarrow> world \<Rightarrow> error option \<times> world" where
  "forwardToWebhook e cfg evt w =
     (let msg = Message evt in
      case extract_into e cfg ''image'' (map_option ImageMessage (GetImageMessage msg))
             (message_body evt) w of
        (Inl err, w1) \<Rightarrow> (Some err, w1)
      | (Inr b1, w1) \<Rightarrow>
      (case extract_into e cfg ''sticker'' (map_option StickerMessage (GetStickerMessage msg)) b1 w1 of
        (Inl err, w2) \<Rightarrow> (Some err, w2)
      | (Inr b2, w2) \<Rightarrow>
      (case extract_into e cfg ''video'' (map_option VideoMessage (GetVideoMessage msg)) b2 w2 of
        (Inl err, w3) \<Rightarrow> (Some err, w3)
      | (Inr b3, w3) \<Rightarrow>
      (case extract_into e cfg ''audio'' (map_option AudioMessage (GetAudioMessage msg)) b3 w3 of
        (Inl err, w4) \<Rightarrow> (Some err, w4)
      | (Inr b4, w4) \<Rightarrow>
      (case extract_into e cfg ''document'' (map_option DocumentMessage (GetDocumentMessage msg)) b4 w4 of
        (Inl err, w5) \<Rightarrow> (Some err, w5)
      | (Inr b5, w5) \<Rightarrow> post_body e cfg b5 w5)))))"

subsection \<open>The event handler\<close>

text \<open>\<open>cli.SendPresence\<close> of the two presence branches; its error is only logged.\<close>

definition send_presence :: "world \<Rightarrow> world" where
  "send_presence w = w\<lparr>presences := presences w + 1\<rparr>"

text \<open>Line 294: the name of the history file, with the counter's value as \<open>%d\<close> of an \<open>int32\<close>.\<close>

definition history_file_name :: "env \<Rightarrow> config \<Rightarrow> 32 word \<Rightarrow> history_sync \<Rightarrow> string" where
  "history_file_name e cfg n h =
     PathStorages cfg @ ''/history-'' @ show_int (startupTime e) @ ''-'' @ Store_ID e
       @ ''-'' @ show_int (sint n) @ ''-'' @ SyncType h @ ''.json''"

text \<open>The condition of lines 257 to 259 under which a message event is forwarded.\<close>

definition forwards_message :: "env \<Rightarrow> config \<Rightarrow> message_event \<Rightarrow> bool" where
  "forwards_message e cfg evt =
     (WhatsappWebhook cfg \<noteq> [] \<and> \<not> Contains (Info_SourceString evt) ''broadcast''
      \<and> \<not> isFromMySelf (Store_ID e) (Info_SourceString evt))"

text \<open>The condition of lines 251 to 253 under which the auto-reply is sent.\<close>

definition auto_replies :: "config \<Rightarrow> message_event \<Rightarrow> bool" where
  "auto_replies cfg evt =
     (WhatsappAutoReplyMessage cfg \<noteq> [] \<and> \<not> isGroupJid (Info_Chat_String evt)
      \<and> \<not> Contains (Info_SourceString evt) ''broadcast'')"

definition forwards_receipt :: "env \<Rightarrow> config \<Rightarrow> receipt_event \<Rightarrow> bool" where
  "forwards_receipt e cfg evt =
     (WhatsappWebhook cfg \<noteq> [] \<and> \<not> isFromMySelf (Store_ID e) (Receipt_SourceString evt))"

fun handler :: "env \<Rightarrow> config \<Rightarrow> event \<Rightarrow> world \<Rightarrow> world" where
  "handler e cfg events_DeleteForMe w = w"
| "handler e cfg (events_AppStateSyncComplete name) w =
     (if length (Store_PushName e) > 0 \<and> name = WAPatchCriticalBlock e then send_presence w else w)"
| "handler e cfg (events_PairSuccess device) w =
     w\<lparr>broadcasts := broadcasts w @ [LOGIN_SUCCESS device]\<rparr>"
| "handler e cfg events_LoggedOut w = w\<lparr>broadcasts := broadcasts w @ [LIST_DEVICES]\<rparr>"
| "handler e cfg events_Connected w =
     (if length (Store_PushName e) = 0 then w else send_presence w)"
| "handler e cfg events_PushNameSetting w =
     (if length (Store_PushName e) = 0 then w else send_presence w)"
| "handler e cfg events_StreamReplaced w = w\<lparr>exited := True\<rparr>"
| "handler e cfg (events_Message evt) w =
     (let w1 = (case GetImageMessage (Message evt) of
                  None \<Rightarrow> w
                | Some img \<Rightarrow> snd (ExtractMedia e (PathStorages cfg) (Some (ImageMessage img)) w));
          w2 = (if auto_replies cfg evt
                then w1\<lparr>sent := sent w1 @ [(Info_Sender evt, WhatsappAutoReplyMessage cfg)]\<rparr>
                else w1)
      in if forwards_message e cfg evt then snd (forwardToWebhook e cfg evt w2) else w2)"
| "handler e cfg (events_Receipt evt) w =
     (if Type evt = ReceiptTypeRead \<or> Type evt = ReceiptTypeReadSelf
      then (if forwards_receipt e cfg evt then snd (forwardReceipt e cfg evt w) else w)
      else if Type evt = ReceiptTypeDelivered
      then (case MessageIDs evt of
              [] \<Rightarrow> w\<lparr>panicked := Some ''runtime error: index out of range [0] with length 0''\<rparr>
            | first # others \<Rightarrow>
                if forwards_receipt e cfg evt then snd (forwardReceipt e cfg evt w) else w)
      else w)"
| "handler e cfg events_Presence w = w"
| "handler e cfg (events_HistorySync h) w =
     (let seq = historySyncID w + 1;
          w1 = w\<lparr>historySyncID := seq\<rparr>;
          fileName = history_file_name e cfg seq h
      in case OpenFile e fileName of
           Some err \<Rightarrow> w1
         | None \<Rightarrow>
             (let w2 = w1\<lparr>opened := opened w1 @ [fileName]\<rparr> in
              case Encode e h of
                Inl err \<Rightarrow> w2
              | Inr encoded \<Rightarrow> w2\<lparr>written := written w2 @ [(fileName, encoded)]\<rparr>))"
| "handler e cfg events_AppState w = w"
| "handler e cfg events_Other w = w"

subsection \<open>Notions used in the statements\<close>

text \<open>
  The media references of a message in the order in which \<open>forwardToWebhook\<close> extracts
  them, and the downloads made between two states of the world.
\<close>

definition refs :: "(media_fields \<Rightarrow> media) \<Rightarrow> media_fields option \<Rightarrow> media list" where
  "refs kind m = (case m of None \<Rightarrow> [] | Some x \<Rightarrow> [kind x])"

definition media_refs :: "message \<Rightarrow> media list" where
  "media_refs msg =
     refs ImageMessage (GetImageMessage msg) @ refs StickerMessage (GetStickerMessage msg)
       @ refs VideoMessage (GetVideoMessage msg) @ refs AudioMessage (GetAudioMessage msg)
       @ refs DocumentMessage (GetDocumentMessage msg)"

definition downloads_during :: "world \<Rightarrow> world \<Rightarrow> media list" where
  "downloads_during w w1 = drop (length (downloads w)) (downloads w1)"


subsection \<open>A run of history chunks\<close>

text \<open>
  The sequence numbers given to history chunks that the handler receives one after the
  other: for each chunk the value of the counter after its increment, read as the
  \<open>int32\<close> that line 294 prints.
\<close>

fun history_numbers :: "env \<Rightarrow> config \<Rightarrow> history_sync list \<Rightarrow> world \<Rightarrow> int list" where
  "history_numbers e cfg [] w = []"
| "history_numbers e cfg (h # hs) w =
     (let w1 = handler e cfg (events_HistorySync h) w
      in sint (historySyncID w1) # history_numbers e cfg hs w1)"

subsection \<open>Sample inputs\<close>

text \<open>Concrete inputs at which the theorems below are instantiated.\<close>

definition sample_env :: env where
  "sample_env =
     \<lparr>Download = (\<lambda>m. Inr ''bytes''),
      ExtensionsByType = (\<lambda>t. ([], None)),
      Now_Unix = (\<lambda>n. 1700000000),
      uuid_NewString = (\<lambda>n. ''uuid'' @ show_nat n),
      WriteFile = (\<lambda>path bytes. None),
      json_Marshal = (\<lambda>b. Inr (concat (map fst b))),
      NewRequest = (\<lambda>url. None),
      client_Do = (\<lambda>url b. DoResponse 200),
      OpenFile = (\<lambda>path. None),
      Encode = (\<lambda>h. Inr (Data h)),
      Store_ID = ''628999000111:5@s.whatsapp.net'',
      Store_PushName = ''me'',
      startupTime = 1700000000,
      WAPatchCriticalBlock = ''critical_block''\<rparr>"

definition sample_cfg :: config where
  "sample_cfg =
     \<lparr>PathStorages = ''storages'', PathMedia = ''statics/media'',
      WhatsappAutoReplyMessage = ''I am away'', WhatsappWebhook = ''http://localhost/hook''\<rparr>"

text \<open>An endpoint that answers every request with status 500.\<close>

definition rejecting_env :: env where
  "rejecting_env = sample_env\<lparr>client_Do := (\<lambda>url b. DoResponse 500)\<rparr>"

text \<open>An endpoint that cannot be reached.\<close>

definition unreachable_env :: env where
  "unreachable_env = sample_env\<lparr>client_Do := (\<lambda>url b. DoError ''connection refused'')\<rparr>"



definition sample_receipt :: receipt_event where
  "sample_receipt =
     \<lparr>Receipt_SourceString = ''6281234567890@s.whatsapp.net'', Timestamp = 1700000100,
      Type = ReceiptTypeDelivered, MessageIDs = [''ABC'']\<rparr>"

definition text_message :: message where
  "text_message =
     \<lparr>GetConversation = ''hi'', ExtendedTextMessage = None, ReactionMessage = None,
      GetImageMessage = None, GetStickerMessage = None, GetVideoMessage = None,
      GetAudioMessage = None, GetDocumentMessage = None, GetContactMessage = None,
      GetListMessage = None, GetLiveLocationMessage = None, GetLocationMessage = None,
      GetOrderMessage = None, GetViewOnceMessage = None\<rparr>"

definition sample_image :: media_fields where
  "sample_image = \<lparr>GetMimetype = ''image/jpeg'', GetCaption = ''look'', GetDirectPath = ''/v/t62''\<rparr>"

text \<open>A text message in a private chat, the same message in a group, and an image message.\<close>

definition private_evt :: message_event where
  "private_evt =
     \<lparr>Info_ID = ''3EB0'', Info_PushName = ''Ann'',
      Info_SourceString = ''6281234567890@s.whatsapp.net'',
      Info_Chat_String = ''6281234567890@s.whatsapp.net'',
      Info_Sender = ''6281234567890@s.whatsapp.net'', Message = text_message\<rparr>"

definition group_evt :: message_event where
  "group_evt =
     private_evt\<lparr>Info_SourceString := ''6281234567890@s.whatsapp.net in 120363000000000001@g.us'',
                  Info_Chat_String := ''120363000000000001@g.us''\<rparr>"

definition broadcast_evt :: message_event where
  "broadcast_evt =
     private_evt\<lparr>Info_SourceString := ''6281234567890@s.whatsapp.net in status@broadcast'',
                  Info_Chat_String := ''status@broadcast''\<rparr>"

definition image_evt :: message_event where
  "image_evt = private_evt\<lparr>Message := text_message\<lparr>GetImageMessage := Some sample_image\<rparr>\<rparr>"

definition sample_chunk :: history_sync where
  "sample_chunk = \<lparr>SyncType = ''RECENT'', Data = ''{}''\<rparr>"

definition sample_lib :: types_lib where
  "sample_lib = \<lparr>DefaultUserServer = ''s.whatsapp.net'',
                  types_ParseJID = (\<lambda>s. (NewJID [] s, None))\<rparr>"


section \<open>Properties\<close>

subsection \<open>Strings\<close>

lemma receipt_types_distinct [simp]:
  "ReceiptTypeDelivered \<noteq> ReceiptTypeRead" "ReceiptTypeRead \<noteq> ReceiptTypeDelivered"
  "ReceiptTypeDelivered \<noteq> ReceiptTypeReadSelf" "ReceiptTypeReadSelf \<noteq> ReceiptTypeDelivered"
  "ReceiptTypeRead \<noteq> ReceiptTypeReadSelf" "ReceiptTypeReadSelf \<noteq> ReceiptTypeRead"
  by (simp_all add: ReceiptTypeDelivered_def ReceiptTypeRead_def ReceiptTypeReadSelf_def)

lemma Split_not_Nil: "Split s sep \<noteq> []"
  by (induction s) (simp_all split: list.splits)

lemma extractPhoneNumber_leading_run:
  "extractPhoneNumber j = takeWhile is_digit (dropWhile (\<lambda>c. \<not> is_digit c) j)"
  by (induction j) (simp_all add: extractPhoneNumber_def)

subsection \<open>The file extension of an extracted attachment\<close>

text \<open>
  C1. The extension is meant to come from the mime table and to fall back to the text
  after the last \<open>/\<close>. The guard of the first branch asks for an error that is not nil,
  so a lookup that succeeds is never used: whatever extensions the table returns without
  an error, the extension is the dot and the last piece of the mime type (and empty when
  the mime type has no \<open>/\<close>). With \<open>.svg\<close> in the table for \<open>image/svg+xml\<close> the file gets
  \<open>.svg+xml\<close>, and with \<open>.jpg\<close> for \<open>image/jpeg\<close> it gets \<open>.jpeg\<close>. The fallback is as
  described: \<open>application/x-custom\<close>, which the table does not know, gives \<open>.x-custom\<close>,
  and the empty mime type gives no extension.
\<close>

theorem file_extension_ignores_lookup:
  "file_extension (\<lambda>t. (exts, None)) mimeType
     = (if length (Split mimeType CHR ''/'') > 1 then ''.'' @ last (Split mimeType CHR ''/'') else [])
   \<and> file_extension (\<lambda>t. ([''.svg''], None)) ''image/svg+xml'' = ''.svg+xml''
   \<and> file_extension (\<lambda>t. ([''.jpg''], None)) ''image/jpeg'' = ''.jpeg''
   \<and> file_extension (\<lambda>t. ([], None)) ''application/x-custom'' = ''.x-custom''
   \<and> file_extension (\<lambda>t. ([], Some ''mime: no media type'')) [] = []"
proof -
  have "Split mimeType CHR ''/'' ! (length (Split mimeType CHR ''/'') - 1)
          = last (Split mimeType CHR ''/'')"
    by (simp add: last_conv_nth Split_not_Nil)
  then show ?thesis
    by (simp add: file_extension_def Let_def)
qed

subsection \<open>Self detection\<close>

text \<open>
  C5. \<open>extractPhoneNumber\<close> returns the first maximal run of digits of an address
  (lemma \<open>extractPhoneNumber_leading_run\<close>), and \<open>isFromMySelf\<close> compares only that.
  So two addresses with the same leading digit run get the same answer, whatever the
  account's own address is and whatever else the addresses hold; in particular
  \<open>6281234567890@s.whatsapp.net\<close> and \<open>+6281234567890@g.us\<close> do.
\<close>

theorem isFromMySelf_same_leading_digits:
  "(takeWhile is_digit (dropWhile (\<lambda>c. \<not> is_digit c) a)
      = takeWhile is_digit (dropWhile (\<lambda>c. \<not> is_digit c) b)
    \<longrightarrow> isFromMySelf own a = isFromMySelf own b)
   \<and> isFromMySelf own ''6281234567890@s.whatsapp.net'' = isFromMySelf own ''+6281234567890@g.us''"
  by (simp add: isFromMySelf_def extractPhoneNumber_leading_run is_digit_def)

theorem isFromMySelf_same_leading_digits_witness:
  "isFromMySelf ''6281234567890:12@s.whatsapp.net'' ''6281234567890@s.whatsapp.net''
     = isFromMySelf ''6281234567890:12@s.whatsapp.net'' ''+6281234567890@g.us''
   \<and> isFromMySelf ''6281234567890:12@s.whatsapp.net'' ''+6281234567890@g.us''"
  using isFromMySelf_same_leading_digits
    [of "''6281234567890@s.whatsapp.net''" "''+6281234567890@g.us''"
        "''6281234567890:12@s.whatsapp.net''"]
  by (simp add: isFromMySelf_def extractPhoneNumber_leading_run is_digit_def)

subsection \<open>\<open>ParseJID\<close>\<close>

text \<open>
  C10. \<open>ParseJID\<close> panics on the empty string (the read of \<open>arg[0]\<close>). On every other
  argument it returns; and on every non-empty argument without \<open>@\<close> it returns, with no
  error, the JID on the default user server whose user is the argument without its
  leading \<open>+\<close>. The library's \<open>types.ParseJID\<close> is taken as a function that returns.
\<close>

theorem ParseJID_total_on_nonempty:
  "ParseJID lib [] = Panic ''runtime error: index out of range [0] with length 0''
   \<and> (arg \<noteq> [] \<longrightarrow> (\<exists>r. ParseJID lib arg = Return r))
   \<and> (arg \<noteq> [] \<and> \<not> ContainsRune arg CHR ''@'' \<longrightarrow>
        ParseJID lib arg =
          Return (NewJID (if hd arg = CHR ''+'' then tl arg else arg) (DefaultUserServer lib), None))"
proof (intro conjI impI)
  show "ParseJID lib [] = Panic ''runtime error: index out of range [0] with length 0''"
    by (simp add: ParseJID_def)
next
  assume "arg \<noteq> []"
  then obtain c rest where arg: "arg = c # rest" by (cases arg) auto
  show "\<exists>r. ParseJID lib arg = Return r"
    by (auto simp: arg ParseJID_def Let_def split: prod.splits)
next
  assume a: "arg \<noteq> [] \<and> \<not> ContainsRune arg CHR ''@''"
  then obtain c rest where arg: "arg = c # rest" by (cases arg) auto
  from a have "CHR ''@'' \<notin> set rest" "c \<noteq> CHR ''@''"
    by (auto simp: arg ContainsRune_def)
  then show "ParseJID lib arg =
          Return (NewJID (if hd arg = CHR ''+'' then tl arg else arg) (DefaultUserServer lib), None)"
    by (simp add: arg ParseJID_def ContainsRune_def)
qed

theorem ParseJID_total_on_nonempty_witness:
  "ParseJID sample_lib [] = Panic ''runtime error: index out of range [0] with length 0''
   \<and> (\<exists>r. ParseJID sample_lib ''+6281234567890'' = Return r)
   \<and> ParseJID sample_lib ''+6281234567890'' =
        Return (\<lparr>User = ''6281234567890'', Server = ''s.whatsapp.net''\<rparr>, None)"
  using ParseJID_total_on_nonempty [of sample_lib "''+6281234567890''"]
  by (simp add: ContainsRune_def NewJID_def sample_lib_def)

subsection \<open>What each step leaves alone\<close>

lemma ExtractMedia_frame:
  "posts (snd (ExtractMedia e r mo w)) = posts w"
  "sent (snd (ExtractMedia e r mo w)) = sent w"
  "historySyncID (snd (ExtractMedia e r mo w)) = historySyncID w"
  "panicked (snd (ExtractMedia e r mo w)) = panicked w"
  by (simp_all add: ExtractMedia_def Let_def split: option.splits sum.splits)

lemma ExtractMedia_downloads:
  "downloads (snd (ExtractMedia e r mo w)) = downloads w @ (case mo of None \<Rightarrow> [] | Some m \<Rightarrow> [m])"
  by (simp add: ExtractMedia_def Let_def split: option.splits sum.splits)

lemma post_body_frame:
  "downloads (snd (post_body e cfg b w)) = downloads w"
  "sent (snd (post_body e cfg b w)) = sent w"
  "written (snd (post_body e cfg b w)) = written w"
  by (simp_all add: post_body_def Let_def split: option.splits sum.splits http_result.splits)

text \<open>The four outcomes of the delivery.\<close>

lemma post_body_cases:
  "post_body e cfg b w =
     (case json_Marshal e b of
        Inl err \<Rightarrow> (Some (WebhookError (''Failed to marshal body: '' @ err)), w)
      | Inr s \<Rightarrow>
          (case NewRequest e (WhatsappWebhook cfg) of
             Some err \<Rightarrow> (Some (WebhookError (''error when create http object '' @ err)), w)
           | None \<Rightarrow>
              (case client_Do e (WhatsappWebhook cfg) s of
                 DoError err \<Rightarrow> (Some (WebhookError (''error when submit webhook '' @ err)),
                                 w\<lparr>posts := posts w @ [(WhatsappWebhook cfg, b, s)]\<rparr>)
               | DoResponse st \<Rightarrow> (None, w\<lparr>posts := posts w @ [(WhatsappWebhook cfg, b, s)]\<rparr>))))"
  by (simp add: post_body_def Let_def split: option.splits sum.splits http_result.splits)

lemma post_body_error_kind:
  "fst (post_body e cfg b w) = None \<or> (\<exists>s. fst (post_body e cfg b w) = Some (WebhookError s))"
  by (simp add: post_body_def Let_def split: option.splits sum.splits http_result.splits)

lemma post_body_posts:
  "posts (snd (post_body e cfg b w)) = posts w
   \<or> (\<exists>s. json_Marshal e b = Inr s \<and> posts (snd (post_body e cfg b w)) = posts w @ [(WhatsappWebhook cfg, b, s)])"
  by (simp add: post_body_def Let_def split: option.splits sum.splits http_result.splits)

lemma post_body_None:
  "fst (post_body e cfg b w) = None \<longleftrightarrow>
     (\<exists>s st. json_Marshal e b = Inr s \<and> NewRequest e (WhatsappWebhook cfg) = None
        \<and> client_Do e (WhatsappWebhook cfg) s = DoResponse st)"
  by (simp add: post_body_def Let_def split: option.splits sum.splits http_result.splits)

lemma post_body_None_posts:
  "fst (post_body e cfg b w) = None \<Longrightarrow>
     \<exists>s. json_Marshal e b = Inr s \<and> posts (snd (post_body e cfg b w)) = posts w @ [(WhatsappWebhook cfg, b, s)]"
  by (simp add: post_body_def Let_def split: option.splits sum.splits http_result.splits)

lemma post_body_None_changed:
  "fst (post_body e cfg b w) = None \<Longrightarrow> posts (snd (post_body e cfg b w)) \<noteq> posts w"
  by (auto dest: post_body_None_posts)



lemma extract_into_frame:
  "posts (snd (extract_into e cfg k mo b w)) = posts w"
  "sent (snd (extract_into e cfg k mo b w)) = sent w"
  "historySyncID (snd (extract_into e cfg k mo b w)) = historySyncID w"
  "panicked (snd (extract_into e cfg k mo b w)) = panicked w"
  by (simp_all add: extract_into_def ExtractMedia_def Let_def split: option.splits sum.splits prod.splits)

lemma extract_into_downloads:
  "downloads (snd (extract_into e cfg k mo b w)) = downloads w @ (case mo of None \<Rightarrow> [] | Some m \<Rightarrow> [m])"
  by (simp add: extract_into_def ExtractMedia_def Let_def split: option.splits sum.splits prod.splits)


lemma extract_into_Inl:
  "fst (extract_into e cfg k mo b w) = Inl err \<Longrightarrow> \<exists>s. err = WebhookError s"
  by (auto simp add: extract_into_def split: option.splits prod.splits)


lemma extract_into_download_fails:
  "Download e m = Inl err \<Longrightarrow> \<exists>x. fst (extract_into e cfg k (Some m) b w) = Inl x"
  by (auto simp add: extract_into_def ExtractMedia_def Let_def split: option.splits sum.splits prod.splits)

lemma forwardToWebhook_chain:
  obtains (failed) s where "fst (forwardToWebhook e cfg evt w) = Some (WebhookError s)"
      "posts (snd (forwardToWebhook e cfg evt w)) = posts w"
  | (extracted) b1 w1 b2 w2 b3 w3 b4 w4 b5 w5 where
      "extract_into e cfg ''image'' (map_option ImageMessage (GetImageMessage (Message evt))) (message_body evt) w = (Inr b1, w1)"
      "extract_into e cfg ''sticker'' (map_option StickerMessage (GetStickerMessage (Message evt))) b1 w1 = (Inr b2, w2)"
      "extract_into e cfg ''video'' (map_option VideoMessage (GetVideoMessage (Message evt))) b2 w2 = (Inr b3, w3)"
      "extract_into e cfg ''audio'' (map_option AudioMessage (GetAudioMessage (Message evt))) b3 w3 = (Inr b4, w4)"
      "extract_into e cfg ''document'' (map_option DocumentMessage (GetDocumentMessage (Message evt))) b4 w4 = (Inr b5, w5)"
      "forwardToWebhook e cfg evt w = post_body e cfg b5 w5"
proof -
  let ?m = "Message evt"
  obtain r1 w1 where x1: "extract_into e cfg ''image'' (map_option ImageMessage (GetImageMessage ?m)) (message_body evt) w = (r1, w1)"
    by (cases "extract_into e cfg ''image'' (map_option ImageMessage (GetImageMessage ?m)) (message_body evt) w")
  have p1: "posts w1 = posts w" using extract_into_frame(1)[of e cfg "''image''" _ _ w] x1 by (metis snd_conv)
  show thesis
  proof (cases r1)
    case (Inl err)
    then obtain s where "err = WebhookError s" using extract_into_Inl[of e cfg _ _ _ w err] x1 by (metis fst_conv)
    with Inl x1 p1 show thesis by (intro failed[of s]) (simp_all add: forwardToWebhook_def Let_def)
  next
    case (Inr b1)
    note r1 = this
    obtain r2 w2 where x2: "extract_into e cfg ''sticker'' (map_option StickerMessage (GetStickerMessage ?m)) b1 w1 = (r2, w2)"
      by (cases "extract_into e cfg ''sticker'' (map_option StickerMessage (GetStickerMessage ?m)) b1 w1")
    have p2: "posts w2 = posts w" using extract_into_frame(1)[of e cfg "''sticker''" _ _ w1] x2 p1 by (metis snd_conv)
    show thesis
    proof (cases r2)
      case (Inl err)
      then obtain s where "err = WebhookError s" using extract_into_Inl[of e cfg _ _ _ w1 err] x2 by (metis fst_conv)
      with Inl x1 r1 x2 p2 show thesis by (intro failed[of s]) (simp_all add: forwardToWebhook_def Let_def)
    next
      case (Inr b2)
      note r2 = this
      obtain r3 w3 where x3: "extract_into e cfg ''video'' (map_option VideoMessage (GetVideoMessage ?m)) b2 w2 = (r3, w3)"
        by (cases "extract_into e cfg ''video'' (map_option VideoMessage (GetVideoMessage ?m)) b2 w2")
      have p3: "posts w3 = posts w" using extract_into_frame(1)[of e cfg "''video''" _ _ w2] x3 p2 by (metis snd_conv)
      show thesis
      proof (cases r3)
        case (Inl err)
        then obtain s where "err = WebhookError s" using extract_into_Inl[of e cfg _ _ _ w2 err] x3 by (metis fst_conv)
        with Inl x1 r1 x2 r2 x3 p3 show thesis by (intro failed[of s]) (simp_all add: forwardToWebhook_def Let_def)
      next
        case (Inr b3)
        note r3 = this
        obtain r4 w4 where x4: "extract_into e cfg ''audio'' (map_option AudioMessage (GetAudioMessage ?m)) b3 w3 = (r4, w4)"
          by (cases "extract_into e cfg ''audio'' (map_option AudioMessage (GetAudioMessage ?m)) b3 w3")
        have p4: "posts w4 = posts w" using extract_into_frame(1)[of e cfg "''audio''" _ _ w3] x4 p3 by (metis snd_conv)
        show thesis
        proof (cases r4)
          case (Inl err)
          then obtain s where "err = WebhookError s" using extract_into_Inl[of e cfg _ _ _ w3 err] x4 by (metis fst_conv)
          with Inl x1 r1 x2 r2 x3 r3 x4 p4 show thesis by (intro failed[of s]) (simp_all add: forwardToWebhook_def Let_def)
        next
          case (Inr b4)
          note r4 = this
          obtain r5 w5 where x5: "extract_into e cfg ''document'' (map_option DocumentMessage (GetDocumentMessage ?m)) b4 w4 = (r5, w5)"
            by (cases "extract_into e cfg ''document'' (map_option DocumentMessage (GetDocumentMessage ?m)) b4 w4")
          have p5: "posts w5 = posts w" using extract_into_frame(1)[of e cfg "''document''" _ _ w4] x5 p4 by (metis snd_conv)
          show thesis
          proof (cases r5)
            case (Inl err)
            then obtain s where "err = WebhookError s" using extract_into_Inl[of e cfg _ _ _ w4 err] x5 by (metis fst_conv)
            with Inl x1 r1 x2 r2 x3 r3 x4 r4 x5 p5 show thesis by (intro failed[of s]) (simp_all add: forwardToWebhook_def Let_def)
          next
            case (Inr b5)
            with x1 r1 x2 r2 x3 r3 x4 r4 x5 show thesis
              by (intro extracted[of b1 w1 b2 w2 b3 w3 b4 w4 b5 w5]) (simp_all add: forwardToWebhook_def Let_def)
          qed
        qed
      qed
    qed
  qed
qed


lemma extract_intoD:
  "extract_into e cfg k mo b w = (r, w') \<Longrightarrow>
     posts w' = posts w \<and> sent w' = sent w \<and> historySyncID w' = historySyncID w
     \<and> panicked w' = panicked w
     \<and> downloads w' = downloads w @ (case mo of None \<Rightarrow> [] | Some m \<Rightarrow> [m])"
  using extract_into_frame[of e cfg k mo b w] extract_into_downloads[of e cfg k mo b w]
  by simp

lemma forwardToWebhook_frame:
  "sent (snd (forwardToWebhook e cfg evt w)) = sent w"
  by (auto simp: forwardToWebhook_def Let_def post_body_frame split: prod.splits sum.splits
           dest!: extract_intoD)

lemma forwardToWebhook_error_kind:
  "fst (forwardToWebhook e cfg evt w) = None
   \<or> (\<exists>s. fst (forwardToWebhook e cfg evt w) = Some (WebhookError s))"
proof (cases rule: forwardToWebhook_chain[of e cfg evt w])
  case (failed s)
  then show ?thesis by blast
next
  case (extracted b1 w1 b2 w2 b3 w3 b4 w4 b5 w5)
  then show ?thesis using post_body_error_kind[of e cfg b5 w5] by simp
qed

lemma forwardToWebhook_posts:
  "posts (snd (forwardToWebhook e cfg evt w)) = posts w
   \<or> (\<exists>b s. json_Marshal e b = Inr s
        \<and> posts (snd (forwardToWebhook e cfg evt w)) = posts w @ [(WhatsappWebhook cfg, b, s)])"
proof (cases rule: forwardToWebhook_chain[of e cfg evt w])
  case (failed s)
  then show ?thesis by blast
next
  case (extracted b1 w1 b2 w2 b3 w3 b4 w4 b5 w5)
  have "posts w5 = posts w"
    using extracted(1-5) by (auto dest!: extract_intoD)
  then show ?thesis using post_body_posts[of e cfg b5 w5] extracted(6) by auto
qed

lemma forwardToWebhook_None_posted:
  "fst (forwardToWebhook e cfg evt w) = None \<Longrightarrow>
     posts (snd (forwardToWebhook e cfg evt w)) \<noteq> posts w"
proof (cases rule: forwardToWebhook_chain[of e cfg evt w])
  case (failed s)
  assume "fst (forwardToWebhook e cfg evt w) = None"
  with failed show ?thesis by simp
next
  case (extracted b1 w1 b2 w2 b3 w3 b4 w4 b5 w5)
  assume n: "fst (forwardToWebhook e cfg evt w) = None"
  have "posts w5 = posts w"
    using extracted(1-5) by (auto dest!: extract_intoD)
  then show ?thesis using post_body_None_posts[of e cfg b5 w5] extracted(6) n by auto
qed

subsection \<open>Errors of the webhook delivery\<close>

text \<open>
  C3, as the code has it. Both forwarders return either nil or a \<open>WebhookError\<close>, and
  hand at most one request to the HTTP client per call; a call that returns nil has
  handed over exactly one. \<open>forwardReceipt\<close> is the delivery step \<open>post_body\<close> on its
  four fields; \<open>forwardToWebhook\<close> either fails in an extraction, with a \<open>WebhookError\<close>
  and no request, or is the delivery step on its body. Of the delivery step: a failure
  to marshal and a failure to build the request are wrapped into a \<open>WebhookError\<close> with
  no request made; an error of \<open>client.Do\<close> is wrapped into a \<open>WebhookError\<close> after the
  one request; and whenever \<open>client.Do\<close> returns a response the result is nil, whatever
  the status code of the response. Nothing is retried or queued.
\<close>

theorem webhook_delivery_outcomes:
  "(fst (forwardReceipt e cfg rcpt w) = None
      \<or> (\<exists>s. fst (forwardReceipt e cfg rcpt w) = Some (WebhookError s)))
   \<and> (fst (forwardToWebhook e cfg evt w) = None
      \<or> (\<exists>s. fst (forwardToWebhook e cfg evt w) = Some (WebhookError s)))
   \<and> (posts (snd (forwardReceipt e cfg rcpt w)) = posts w
      \<or> (\<exists>b s. posts (snd (forwardReceipt e cfg rcpt w)) = posts w @ [(WhatsappWebhook cfg, b, s)]))
   \<and> (posts (snd (forwardToWebhook e cfg evt w)) = posts w
      \<or> (\<exists>b s. posts (snd (forwardToWebhook e cfg evt w)) = posts w @ [(WhatsappWebhook cfg, b, s)]))
   \<and> (fst (forwardReceipt e cfg rcpt w) = None \<longrightarrow> posts (snd (forwardReceipt e cfg rcpt w)) \<noteq> posts w)
   \<and> (fst (forwardToWebhook e cfg evt w) = None \<longrightarrow> posts (snd (forwardToWebhook e cfg evt w)) \<noteq> posts w)
   \<and> forwardReceipt e cfg rcpt w
       = post_body e cfg [(''source'', JString (Receipt_SourceString rcpt)),
                          (''timestamp'', JTime (Timestamp rcpt)),
                          (''type'', JString (Type rcpt)),
                          (''ids'', JStringList (MessageIDs rcpt))] w
   \<and> ((\<exists>s w1. forwardToWebhook e cfg evt w = (Some (WebhookError s), w1) \<and> posts w1 = posts w)
      \<or> (\<exists>b1 w1. forwardToWebhook e cfg evt w = post_body e cfg b1 w1 \<and> posts w1 = posts w))
   \<and> (\<forall>err. json_Marshal e b = Inl err \<longrightarrow>
         post_body e cfg b w = (Some (WebhookError (''Failed to marshal body: '' @ err)), w))
   \<and> (\<forall>s err. json_Marshal e b = Inr s \<and> NewRequest e (WhatsappWebhook cfg) = Some err \<longrightarrow>
         post_body e cfg b w = (Some (WebhookError (''error when create http object '' @ err)), w))
   \<and> (\<forall>s err. json_Marshal e b = Inr s \<and> NewRequest e (WhatsappWebhook cfg) = None
           \<and> client_Do e (WhatsappWebhook cfg) s = DoError err \<longrightarrow>
         post_body e cfg b w = (Some (WebhookError (''error when submit webhook '' @ err)),
                                w\<lparr>posts := posts w @ [(WhatsappWebhook cfg, b, s)]\<rparr>))
   \<and> (\<forall>s status. json_Marshal e b = Inr s \<and> NewRequest e (WhatsappWebhook cfg) = None
           \<and> client_Do e (WhatsappWebhook cfg) s = DoResponse status \<longrightarrow>
         post_body e cfg b w = (None, w\<lparr>posts := posts w @ [(WhatsappWebhook cfg, b, s)]\<rparr>))"
proof (intro conjI)
  show "fst (forwardReceipt e cfg rcpt w) = None
      \<or> (\<exists>s. fst (forwardReceipt e cfg rcpt w) = Some (WebhookError s))"
    unfolding forwardReceipt_def Let_def by (rule post_body_error_kind)
  show "fst (forwardToWebhook e cfg evt w) = None
      \<or> (\<exists>s. fst (forwardToWebhook e cfg evt w) = Some (WebhookError s))"
    by (rule forwardToWebhook_error_kind)
  show "posts (snd (forwardReceipt e cfg rcpt w)) = posts w
      \<or> (\<exists>b s. posts (snd (forwardReceipt e cfg rcpt w)) = posts w @ [(WhatsappWebhook cfg, b, s)])"
    unfolding forwardReceipt_def Let_def using post_body_posts by blast
  show "posts (snd (forwardToWebhook e cfg evt w)) = posts w
      \<or> (\<exists>b s. posts (snd (forwardToWebhook e cfg evt w)) = posts w @ [(WhatsappWebhook cfg, b, s)])"
    using forwardToWebhook_posts[of e cfg evt w] by blast
  show "fst (forwardReceipt e cfg rcpt w) = None \<longrightarrow> posts (snd (forwardReceipt e cfg rcpt w)) \<noteq> posts w"
    unfolding forwardReceipt_def Let_def by (simp add: post_body_None_changed)
  show "fst (forwardToWebhook e cfg evt w) = None \<longrightarrow> posts (snd (forwardToWebhook e cfg evt w)) \<noteq> posts w"
    using forwardToWebhook_None_posted by blast
  show "forwardReceipt e cfg rcpt w
       = post_body e cfg [(''source'', JString (Receipt_SourceString rcpt)),
                          (''timestamp'', JTime (Timestamp rcpt)),
                          (''type'', JString (Type rcpt)),
                          (''ids'', JStringList (MessageIDs rcpt))] w"
    by (simp add: forwardReceipt_def)
  show "(\<exists>s w1. forwardToWebhook e cfg evt w = (Some (WebhookError s), w1) \<and> posts w1 = posts w)
      \<or> (\<exists>b1 w1. forwardToWebhook e cfg evt w = post_body e cfg b1 w1 \<and> posts w1 = posts w)"
  proof (cases rule: forwardToWebhook_chain[of e cfg evt w])
    case (failed s)
    then have "forwardToWebhook e cfg evt w = (Some (WebhookError s), snd (forwardToWebhook e cfg evt w))"
      by (simp add: prod_eq_iff)
    with failed(2) show ?thesis by blast
  next
    case (extracted b1 w1 b2 w2 b3 w3 b4 w4 b5 w5)
    have "posts w5 = posts w"
      using extracted(1-5) by (auto dest!: extract_intoD)
    with extracted(6) show ?thesis by blast
  qed
qed (simp_all add: post_body_cases)


theorem webhook_delivery_outcomes_witness:
  "fst (forwardReceipt sample_env sample_cfg sample_receipt start_world) = None
   \<and> posts (snd (forwardReceipt sample_env sample_cfg sample_receipt start_world)) \<noteq> posts start_world
   \<and> post_body unreachable_env sample_cfg [] start_world
       = (Some (WebhookError ''error when submit webhook connection refused''),
          start_world\<lparr>posts := posts start_world @ [(WhatsappWebhook sample_cfg, [], [])]\<rparr>)"
proof -
  have n: "fst (forwardReceipt sample_env sample_cfg sample_receipt start_world) = None"
    by (simp add: forwardReceipt_def post_body_def sample_env_def sample_cfg_def)
  have d: "json_Marshal unreachable_env [] = Inr []
           \<and> NewRequest unreachable_env (WhatsappWebhook sample_cfg) = None
           \<and> client_Do unreachable_env (WhatsappWebhook sample_cfg) [] = DoError ''connection refused''"
    by (simp add: unreachable_env_def sample_env_def)
  have a: "posts (snd (forwardReceipt sample_env sample_cfg sample_receipt start_world)) \<noteq> posts start_world"
    using n webhook_delivery_outcomes [where e = sample_env and cfg = sample_cfg
      and rcpt = sample_receipt and w = start_world and evt = private_evt and b = "[]"]
    by blast
  have b: "post_body unreachable_env sample_cfg [] start_world
       = (Some (WebhookError (''error when submit webhook '' @ ''connection refused'')),
          start_world\<lparr>posts := posts start_world @ [(WhatsappWebhook sample_cfg, [], [])]\<rparr>)"
    using d webhook_delivery_outcomes [where e = unreachable_env and cfg = sample_cfg
      and rcpt = sample_receipt and w = start_world and evt = private_evt and b = "[]"]
    by blast
  from n a b show ?thesis by simp
qed

text \<open>
  C3 as stated fails: an endpoint that rejects the request with status 500 is not
  reported. The forwarder returns nil after its one request.
\<close>

theorem endpoint_rejection_returns_nil:
  "client_Do rejecting_env ''http://localhost/hook'' ''sourcetimestamptypeids'' = DoResponse 500
   \<and> forwardReceipt rejecting_env sample_cfg sample_receipt start_world
       = (None,
          start_world\<lparr>posts :=
            [(''http://localhost/hook'',
              [(''source'', JString ''6281234567890@s.whatsapp.net''),
               (''timestamp'', JTime 1700000100),
               (''type'', JString ReceiptTypeDelivered),
               (''ids'', JStringList [''ABC''])],
              ''sourcetimestamptypeids'')]\<rparr>)"
  by (simp add: forwardReceipt_def post_body_def rejecting_env_def sample_env_def sample_cfg_def
        sample_receipt_def start_world_def)

subsection \<open>The auto-reply\<close>

text \<open>
  C6. Handling a message event sends no auto-reply when the chat address is a group
  address or the source string contains \<open>broadcast\<close>, whatever the configuration; and
  it sends exactly one message, the configured text to the event's sender, exactly
  when the text is not empty, the chat is not a group and the source is not a
  broadcast. Whether the event is then forwarded to the webhook changes nothing.
\<close>

theorem auto_reply_gate:
  "(isGroupJid (Info_Chat_String evt) \<or> Contains (Info_SourceString evt) ''broadcast''
      \<longrightarrow> sent (handler e cfg (events_Message evt) w) = sent w)
   \<and> sent (handler e cfg (events_Message evt) w)
       = sent w @ (if WhatsappAutoReplyMessage cfg \<noteq> [] \<and> \<not> isGroupJid (Info_Chat_String evt)
                      \<and> \<not> Contains (Info_SourceString evt) ''broadcast''
                   then [(Info_Sender evt, WhatsappAutoReplyMessage cfg)] else [])"
  by (auto simp: Let_def auto_replies_def forwardToWebhook_frame ExtractMedia_frame
           split: option.splits)

theorem auto_reply_gate_witness:
  "WhatsappAutoReplyMessage sample_cfg \<noteq> []
   \<and> isGroupJid (Info_Chat_String group_evt)
   \<and> sent (handler sample_env sample_cfg (events_Message group_evt) start_world) = []
   \<and> Contains (Info_SourceString broadcast_evt) ''broadcast''
   \<and> sent (handler sample_env sample_cfg (events_Message broadcast_evt) start_world) = []
   \<and> sent (handler sample_env sample_cfg (events_Message private_evt) start_world)
       = [(''6281234567890@s.whatsapp.net'', ''I am away'')]"
  using auto_reply_gate [of group_evt sample_env sample_cfg start_world]
    auto_reply_gate [of broadcast_evt sample_env sample_cfg start_world]
    auto_reply_gate [of private_evt sample_env sample_cfg start_world]
  by (simp add: isGroupJid_def group_evt_def broadcast_evt_def private_evt_def sample_cfg_def
        start_world_def)

subsection \<open>The payload of a receipt\<close>

text \<open>
  C8, as the code has it. Whenever handling a receipt event hands a request to the HTTP
  client, the map that was marshalled is exactly the four fields \<open>source\<close>,
  \<open>timestamp\<close>, \<open>type\<close> and \<open>ids\<close> of the event, sent to the configured webhook; the
  \<open>type\<close> field is the text of the event's receipt type. In particular a delivered
  receipt with the ids \<open>["ABC"]\<close> that is forwarded gives the map of its source, its
  timestamp, the empty string as type (the text of the delivered type) and \<open>["ABC"]\<close>.
\<close>

theorem receipt_payload:
  "(posts (handler e cfg (events_Receipt evt) w) \<noteq> posts w \<longrightarrow>
      (\<exists>s. posts (handler e cfg (events_Receipt evt) w)
             = posts w @ [(WhatsappWebhook cfg,
                           [(''source'', JString (Receipt_SourceString evt)),
                            (''timestamp'', JTime (Timestamp evt)),
                            (''type'', JString (Type evt)),
                            (''ids'', JStringList (MessageIDs evt))], s)]))
   \<and> (Type evt = ReceiptTypeDelivered \<and> MessageIDs evt = [''ABC''] \<and> forwards_receipt e cfg evt
        \<and> json_Marshal e [(''source'', JString (Receipt_SourceString evt)),
                           (''timestamp'', JTime (Timestamp evt)),
                           (''type'', JString []),
                           (''ids'', JStringList [''ABC''])] = Inr s
        \<and> NewRequest e (WhatsappWebhook cfg) = None
      \<longrightarrow> posts (handler e cfg (events_Receipt evt) w)
             = posts w @ [(WhatsappWebhook cfg,
                           [(''source'', JString (Receipt_SourceString evt)),
                            (''timestamp'', JTime (Timestamp evt)),
                            (''type'', JString []),
                            (''ids'', JStringList [''ABC''])], s)])"
proof (intro conjI impI)
  let ?b = "[(''source'', JString (Receipt_SourceString evt)),
             (''timestamp'', JTime (Timestamp evt)),
             (''type'', JString (Type evt)),
             (''ids'', JStringList (MessageIDs evt))]"
  assume changed: "posts (handler e cfg (events_Receipt evt) w) \<noteq> posts w"
  then have "handler e cfg (events_Receipt evt) w = snd (post_body e cfg ?b w)"
    by (auto simp: forwardReceipt_def Let_def split: if_splits list.splits)
  with changed post_body_posts[of e cfg ?b w]
  show "\<exists>s. posts (handler e cfg (events_Receipt evt) w) = posts w @ [(WhatsappWebhook cfg, ?b, s)]"
    by auto
next
  assume "Type evt = ReceiptTypeDelivered \<and> MessageIDs evt = [''ABC''] \<and> forwards_receipt e cfg evt
        \<and> json_Marshal e [(''source'', JString (Receipt_SourceString evt)),
                           (''timestamp'', JTime (Timestamp evt)),
                           (''type'', JString []),
                           (''ids'', JStringList [''ABC''])] = Inr s
        \<and> NewRequest e (WhatsappWebhook cfg) = None"
  then show "posts (handler e cfg (events_Receipt evt) w)
             = posts w @ [(WhatsappWebhook cfg,
                           [(''source'', JString (Receipt_SourceString evt)),
                            (''timestamp'', JTime (Timestamp evt)),
                            (''type'', JString []),
                            (''ids'', JStringList [''ABC''])], s)]"
    by (simp add: forwardReceipt_def post_body_def Let_def ReceiptTypeDelivered_def
          ReceiptTypeRead_def ReceiptTypeReadSelf_def split: http_result.splits)
qed

text \<open>
  C8 as stated fails in its example: the \<open>type\<close> field of a forwarded delivered receipt
  with the ids \<open>["ABC"]\<close> is the empty string, not \<open>delivered\<close>.
\<close>

theorem delivered_receipt_type_is_empty:
  "map (fst \<circ> snd)
     (posts (handler sample_env sample_cfg (events_Receipt sample_receipt) start_world))
     = [[(''source'', JString ''6281234567890@s.whatsapp.net''),
         (''timestamp'', JTime 1700000100),
         (''type'', JString []),
         (''ids'', JStringList [''ABC''])]]
   \<and> JString [] \<noteq> JString ''delivered''"
  by (simp add: forwardReceipt_def post_body_def Let_def forwards_receipt_def isFromMySelf_def
        extractPhoneNumber_leading_run is_digit_def sample_receipt_def sample_env_def
        sample_cfg_def start_world_def ReceiptTypeDelivered_def ReceiptTypeRead_def
        ReceiptTypeReadSelf_def)

theorem receipt_payload_witness:
  "posts (handler sample_env sample_cfg (events_Receipt sample_receipt) start_world) \<noteq> posts start_world
   \<and> posts (handler sample_env sample_cfg (events_Receipt sample_receipt) start_world)
       = [(''http://localhost/hook'',
           [(''source'', JString ''6281234567890@s.whatsapp.net''),
            (''timestamp'', JTime 1700000100),
            (''type'', JString []),
            (''ids'', JStringList [''ABC''])],
           ''sourcetimestamptypeids'')]"
proof -
  have h: "Type sample_receipt = ReceiptTypeDelivered \<and> MessageIDs sample_receipt = [''ABC'']
        \<and> forwards_receipt sample_env sample_cfg sample_receipt
        \<and> json_Marshal sample_env [(''source'', JString (Receipt_SourceString sample_receipt)),
                           (''timestamp'', JTime (Timestamp sample_receipt)),
                           (''type'', JString []),
                           (''ids'', JStringList [''ABC''])] = Inr ''sourcetimestamptypeids''
        \<and> NewRequest sample_env (WhatsappWebhook sample_cfg) = None"
    by (simp add: sample_receipt_def sample_env_def sample_cfg_def forwards_receipt_def
          isFromMySelf_def extractPhoneNumber_leading_run is_digit_def)
  from h receipt_payload [of sample_env sample_cfg sample_receipt start_world "''sourcetimestamptypeids''"]
  show ?thesis
    by (simp add: sample_receipt_def sample_cfg_def start_world_def)
qed

subsection \<open>History sync sequence numbers\<close>

lemma handler_HistorySync_counter:
  "historySyncID (handler e cfg (events_HistorySync h) w) = historySyncID w + 1"
  by (simp add: Let_def split: option.splits sum.splits)

lemma sint_of_nat_small:
  assumes "n < 2 ^ 31"
  shows "sint (of_nat n :: 32 word) = int n"
proof -
  have "sint (word_of_int (int n) :: 32 word) = (int n + 2 ^ 31) mod 2 ^ 32 - 2 ^ 31"
    by (subst int_word_sint) simp
  moreover have "(int n + 2 ^ 31) mod 2 ^ 32 = int n + 2 ^ 31"
    using assms by (intro mod_pos_pos_trivial) auto
  ultimately show ?thesis by simp
qed

lemma history_numbers_eq:
  "history_numbers e cfg hs w = map (\<lambda>k. sint (historySyncID w + of_nat k)) [1..<Suc (length hs)]"
proof (induction hs arbitrary: w)
  case Nil
  show ?case by simp
next
  case (Cons h hs)
  have "[1..<Suc (length (h # hs))] = 1 # map Suc [1..<Suc (length hs)]"
    by (simp add: upt_conv_Cons map_Suc_upt del: upt_Suc)
  then show ?case
    by (simp add: Cons.IH handler_HistorySync_counter Let_def add.assoc del: upt_Suc handler.simps)
qed

lemma history_numbers_small:
  assumes "length hs < 2 ^ 31"
  shows "history_numbers e cfg hs start_world = map int [1..<Suc (length hs)]"
proof -
  have "\<forall>k \<in> set [1..<Suc (length hs)]. sint (historySyncID start_world + of_nat k) = int k"
    using assms by (auto simp: start_world_def intro!: sint_of_nat_small)
  then show ?thesis
    by (simp only: history_numbers_eq map_eq_conv)
qed

lemma post_body_counter:
  "historySyncID (snd (post_body e cfg b w)) = historySyncID w"
  by (simp add: post_body_def Let_def split: option.splits sum.splits http_result.splits)

lemma forwardToWebhook_counter:
  "historySyncID (snd (forwardToWebhook e cfg evt w)) = historySyncID w"
  by (auto simp: forwardToWebhook_def Let_def post_body_counter split: prod.splits sum.splits
           dest!: extract_intoD)

lemma handler_other_counter:
  "(\<forall>h. ev \<noteq> events_HistorySync h) \<Longrightarrow> historySyncID (handler e cfg ev w) = historySyncID w"
  by (cases ev)
     (auto simp: Let_def send_presence_def forwardToWebhook_counter ExtractMedia_frame
         forwardReceipt_def post_body_counter split: option.splits list.splits)

lemma history_numbers_nth:
  "k < length hs \<Longrightarrow> history_numbers e cfg hs w ! k = sint (historySyncID w + of_nat (Suc k))"
  by (simp only: history_numbers_eq nth_map length_upt nth_upt diff_Suc_1 plus_1_eq_Suc) 

text \<open>
  C7, as the code has it. The counter is an \<open>int32\<close> that starts at 0 and is
  incremented by one for every history chunk, before anything else is done with the
  chunk; no other event changes it. For a run of fewer than \<open>2^31\<close> chunks from process start the numbers are
  1, 2, 3, and so on: strictly increasing and without repetition. When the file can be
  opened and the data encoded, the chunk is written to
  \<open>{PathStorages}/history-{startupTime}-{Store.ID}-{number}-{SyncType}.json\<close>.
\<close>

theorem history_sequence_numbers:
  "(length hs < 2 ^ 31 \<longrightarrow>
      history_numbers e cfg hs start_world = map int [1..<Suc (length hs)]
      \<and> sorted_wrt (<) (history_numbers e cfg hs start_world)
      \<and> distinct (history_numbers e cfg hs start_world))
   \<and> historySyncID (handler e cfg (events_HistorySync h) w) = historySyncID w + 1
   \<and> ((\<forall>c. ev \<noteq> events_HistorySync c) \<longrightarrow>
        historySyncID (handler e cfg ev w) = historySyncID w)
   \<and> (OpenFile e (history_file_name e cfg (historySyncID w + 1) h) = None \<and> Encode e h = Inr s \<longrightarrow>
        written (handler e cfg (events_HistorySync h) w)
          = written w @ [(PathStorages cfg @ ''/history-'' @ show_int (startupTime e) @ ''-''
                            @ Store_ID e @ ''-'' @ show_int (sint (historySyncID w + 1)) @ ''-''
                            @ SyncType h @ ''.json'', s)])"
proof (intro conjI impI)
  assume small: "length hs < 2 ^ 31"
  then show eq: "history_numbers e cfg hs start_world = map int [1..<Suc (length hs)]"
    by (rule history_numbers_small)
  show "sorted_wrt (<) (history_numbers e cfg hs start_world)"
    unfolding eq by (simp add: sorted_wrt_map del: upt_Suc)
  show "distinct (history_numbers e cfg hs start_world)"
    unfolding eq by (simp add: distinct_map del: upt_Suc)
next
  show "historySyncID (handler e cfg (events_HistorySync h) w) = historySyncID w + 1"
    by (rule handler_HistorySync_counter)
next
  assume "\<forall>c. ev \<noteq> events_HistorySync c"
  then show "historySyncID (handler e cfg ev w) = historySyncID w"
    by (rule handler_other_counter)
next
  assume "OpenFile e (history_file_name e cfg (historySyncID w + 1) h) = None \<and> Encode e h = Inr s"
  then show "written (handler e cfg (events_HistorySync h) w)
          = written w @ [(PathStorages cfg @ ''/history-'' @ show_int (startupTime e) @ ''-''
                            @ Store_ID e @ ''-'' @ show_int (sint (historySyncID w + 1)) @ ''-''
                            @ SyncType h @ ''.json'', s)]"
    by (simp add: Let_def history_file_name_def)
qed

text \<open>
  C7 as stated fails where the \<open>int32\<close> wraps: the chunk after number 2147483647 gets
  \<open>-2147483648\<close>, and the chunk \<open>2^32\<close> places after the first gets the number 1 again.
\<close>

theorem history_numbers_wrap:
  "history_numbers sample_env sample_cfg (replicate 2147483648 sample_chunk) start_world ! 2147483646
     = 2147483647
   \<and> history_numbers sample_env sample_cfg (replicate 2147483648 sample_chunk) start_world ! 2147483647
     = - 2147483648
   \<and> history_numbers sample_env sample_cfg (replicate 4294967297 sample_chunk) start_world ! 0 = 1
   \<and> history_numbers sample_env sample_cfg (replicate 4294967297 sample_chunk) start_world ! 4294967296 = 1"
proof -
  have a: "history_numbers sample_env sample_cfg (replicate 2147483648 sample_chunk) start_world ! 2147483646
        = sint (historySyncID start_world + of_nat (Suc 2147483646))"
    by (rule history_numbers_nth) simp
  have b: "history_numbers sample_env sample_cfg (replicate 2147483648 sample_chunk) start_world ! 2147483647
        = sint (historySyncID start_world + of_nat (Suc 2147483647))"
    by (rule history_numbers_nth) simp
  have c: "history_numbers sample_env sample_cfg (replicate 4294967297 sample_chunk) start_world ! 0
        = sint (historySyncID start_world + of_nat (Suc 0))"
    by (rule history_numbers_nth) simp
  have d: "history_numbers sample_env sample_cfg (replicate 4294967297 sample_chunk) start_world ! 4294967296
        = sint (historySyncID start_world + of_nat (Suc 4294967296))"
    by (rule history_numbers_nth) simp
  have z: "historySyncID start_world = 0" by (simp add: start_world_def)
  show ?thesis
    unfolding a b c d z by simp
qed

theorem history_sequence_numbers_witness:
  "history_numbers sample_env sample_cfg [sample_chunk, sample_chunk, sample_chunk] start_world = [1, 2, 3]
   \<and> written (handler sample_env sample_cfg (events_HistorySync sample_chunk) start_world)
       = [(''storages/history-1700000000-628999000111:5@s.whatsapp.net-1-RECENT.json'', ''{}'')]"
proof -
  have o: "OpenFile sample_env (history_file_name sample_env sample_cfg (historySyncID start_world + 1) sample_chunk) = None
        \<and> Encode sample_env sample_chunk = Inr ''{}''"
    by (simp add: sample_env_def sample_chunk_def)
  have l: "length [sample_chunk, sample_chunk, sample_chunk] < 2 ^ 31" by simp
  have u: "map int [1..<Suc (length [sample_chunk, sample_chunk, sample_chunk])] = [1, 2, 3]"
    by (simp add: upt_rec)
  have n: "show_int (startupTime sample_env) = ''1700000000''
           \<and> show_int (sint (historySyncID start_world + 1)) = ''1''"
    by (simp add: sample_env_def start_world_def show_int_def show_nat.simps digit_char_def)
  have r1: "history_numbers sample_env sample_cfg [sample_chunk, sample_chunk, sample_chunk] start_world
              = map int [1..<Suc (length [sample_chunk, sample_chunk, sample_chunk])]"
    using l history_sequence_numbers [where hs = "[sample_chunk, sample_chunk, sample_chunk]"
      and e = sample_env and cfg = sample_cfg and h = sample_chunk and w = start_world
      and s = "''{}''" and ev = events_Presence]
    by blast
  have r2: "written (handler sample_env sample_cfg (events_HistorySync sample_chunk) start_world)
              = written start_world @
                [(PathStorages sample_cfg @ ''/history-'' @ show_int (startupTime sample_env) @ ''-''
                    @ Store_ID sample_env @ ''-'' @ show_int (sint (historySyncID start_world + 1))
                    @ ''-'' @ SyncType sample_chunk @ ''.json'', ''{}'')]"
    using o history_sequence_numbers [where hs = "[sample_chunk, sample_chunk, sample_chunk]"
      and e = sample_env and cfg = sample_cfg and h = sample_chunk and w = start_world
      and s = "''{}''" and ev = events_Presence]
    by blast
  have p: "PathStorages sample_cfg = ''storages'' \<and> Store_ID sample_env = ''628999000111:5@s.whatsapp.net''
           \<and> SyncType sample_chunk = ''RECENT'' \<and> written start_world = []"
    by (simp add: sample_cfg_def sample_env_def sample_chunk_def start_world_def)
  show ?thesis
    unfolding r1 r2 u by (simp add: n p)
qed

subsection \<open>Downloads while a message event is handled\<close>

lemma sample_names:
  "show_int 1700000000 = ''1700000000''" "show_nat 0 = ''0''" "show_nat 1 = ''1''"
  by (simp_all add: show_int_def show_nat.simps digit_char_def)

lemmas sample_defs = sample_env_def sample_cfg_def image_evt_def private_evt_def text_message_def
  sample_image_def start_world_def

lemmas forward_defs = forwardToWebhook_def extract_into_def ExtractMedia_def post_body_def
  message_body_def media_value_def proto_value_def file_extension_def Let_def

lemma refs_map_option:
  "(case map_option kind m of None \<Rightarrow> [] | Some x \<Rightarrow> [x]) = refs kind m"
  by (simp add: refs_def split: option.splits)

lemma prefix_self_append: "prefix xs (xs @ ys)"
  by (simp add: prefix_def)

lemma count_list_prefix: "prefix xs ys \<Longrightarrow> count_list xs a \<le> count_list ys a"
  by (auto simp: prefix_def)

lemma extract_into_refsD:
  "extract_into e cfg k (map_option kind m) b w = (r, w') \<Longrightarrow>
     downloads w' = downloads w @ refs kind m"
  by (drule extract_intoD) (simp add: refs_def split: option.splits)

lemma forwardToWebhook_downloads:
  "prefix (downloads w @ refs ImageMessage (GetImageMessage (Message evt)))
          (downloads (snd (forwardToWebhook e cfg evt w)))
   \<and> prefix (downloads (snd (forwardToWebhook e cfg evt w))) (downloads w @ media_refs (Message evt))"
  by (auto simp: forwardToWebhook_def Let_def post_body_frame media_refs_def prefix_self_append
        split: prod.splits sum.splits dest!: extract_into_refsD)

lemma count_media_refs:
  "count_list (media_refs msg) (ImageMessage x) \<le> 1"
  "count_list (media_refs msg) (StickerMessage x) \<le> 1"
  "count_list (media_refs msg) (VideoMessage x) \<le> 1"
  "count_list (media_refs msg) (AudioMessage x) \<le> 1"
  "count_list (media_refs msg) (DocumentMessage x) \<le> 1"
  by (simp_all add: media_refs_def refs_def split: option.splits)

lemma count_image_refs:
  "count_list (refs ImageMessage m) (ImageMessage x) \<le> 1"
  "count_list (refs ImageMessage m) (StickerMessage x) = 0"
  "count_list (refs ImageMessage m) (VideoMessage x) = 0"
  "count_list (refs ImageMessage m) (AudioMessage x) = 0"
  "count_list (refs ImageMessage m) (DocumentMessage x) = 0"
  by (simp_all add: refs_def split: option.splits)

lemma handler_Message_downloads:
  "\<exists>ds. downloads (handler e cfg (events_Message evt) w)
           = downloads w @ refs ImageMessage (GetImageMessage (Message evt)) @ ds
       \<and> prefix ds (media_refs (Message evt))
       \<and> (forwards_message e cfg evt \<longrightarrow> prefix (refs ImageMessage (GetImageMessage (Message evt))) ds)
       \<and> (\<not> forwards_message e cfg evt \<longrightarrow> ds = [])"
proof -
  let ?img = "refs ImageMessage (GetImageMessage (Message evt))"
  define w1 where "w1 = (case GetImageMessage (Message evt) of
                  None \<Rightarrow> w
                | Some img \<Rightarrow> snd (ExtractMedia e (PathStorages cfg) (Some (ImageMessage img)) w))"
  define w2 where "w2 = (if auto_replies cfg evt
                then w1\<lparr>sent := sent w1 @ [(Info_Sender evt, WhatsappAutoReplyMessage cfg)]\<rparr>
                else w1)"
  have d2: "downloads w2 = downloads w @ ?img"
    by (simp add: w2_def w1_def refs_def ExtractMedia_downloads split: option.splits)
  have h: "handler e cfg (events_Message evt) w
             = (if forwards_message e cfg evt then snd (forwardToWebhook e cfg evt w2) else w2)"
    by (simp add: w1_def w2_def Let_def)
  show ?thesis
  proof (cases "forwards_message e cfg evt")
    case False
    with h d2 show ?thesis by simp
  next
    case True
    from forwardToWebhook_downloads[of w2 evt e cfg]
    obtain zs where zs: "downloads (snd (forwardToWebhook e cfg evt w2)) = (downloads w2 @ ?img) @ zs"
      and le: "prefix (downloads (snd (forwardToWebhook e cfg evt w2))) (downloads w2 @ media_refs (Message evt))"
      by (auto simp: prefix_def)
    from le zs have "prefix (?img @ zs) (media_refs (Message evt))" by simp
    with True h zs d2 show ?thesis
      by (intro exI[of _ "?img @ zs"]) (simp add: prefix_self_append)
  qed
qed

text \<open>
  C4, as the code has it. While one message event is handled, an image reference is
  downloaded at most twice and a sticker, video, audio or document reference at most
  once. The handler downloads the image itself (lines 241 to 249), and
  \<open>forwardToWebhook\<close> downloads it again (lines 398 to 404): an image of a forwarded
  event is downloaded exactly twice. When the event is not forwarded, the image is the
  only download.
\<close>

theorem media_download_counts:
  "downloads (handler e cfg (events_Message evt) w)
     = downloads w @ downloads_during w (handler e cfg (events_Message evt) w)
   \<and> count_list (downloads_during w (handler e cfg (events_Message evt) w)) (ImageMessage x) \<le> 2
   \<and> count_list (downloads_during w (handler e cfg (events_Message evt) w)) (StickerMessage x) \<le> 1
   \<and> count_list (downloads_during w (handler e cfg (events_Message evt) w)) (VideoMessage x) \<le> 1
   \<and> count_list (downloads_during w (handler e cfg (events_Message evt) w)) (AudioMessage x) \<le> 1
   \<and> count_list (downloads_during w (handler e cfg (events_Message evt) w)) (DocumentMessage x) \<le> 1
   \<and> (forwards_message e cfg evt \<and> GetImageMessage (Message evt) = Some i \<longrightarrow>
        count_list (downloads_during w (handler e cfg (events_Message evt) w)) (ImageMessage i) = 2)
   \<and> (\<not> forwards_message e cfg evt \<longrightarrow>
        downloads_during w (handler e cfg (events_Message evt) w)
          = refs ImageMessage (GetImageMessage (Message evt)))"
proof -
  let ?img = "refs ImageMessage (GetImageMessage (Message evt))"
  from handler_Message_downloads[of e cfg evt w]
  obtain ds where eq: "downloads (handler e cfg (events_Message evt) w) = downloads w @ ?img @ ds"
    and le: "prefix ds (media_refs (Message evt))"
    and fw: "forwards_message e cfg evt \<longrightarrow> prefix ?img ds"
    and nf: "\<not> forwards_message e cfg evt \<longrightarrow> ds = []"
    by blast
  have during: "downloads_during w (handler e cfg (events_Message evt) w) = ?img @ ds"
    by (simp add: downloads_during_def eq del: handler.simps)
  have c: "\<And>a. count_list ds a \<le> count_list (media_refs (Message evt)) a"
    using le by (rule count_list_prefix)
  have two: "count_list (?img @ ds) (ImageMessage i) = 2"
    if "forwards_message e cfg evt" "GetImageMessage (Message evt) = Some i"
  proof -
    from that fw have "prefix [ImageMessage i] ds" by (simp add: refs_def)
    then have "1 \<le> count_list ds (ImageMessage i)" by (auto simp: prefix_def)
    moreover have "count_list ds (ImageMessage i) \<le> 1"
      using c[of "ImageMessage i"] count_media_refs(1)[of "Message evt" i] by linarith
    ultimately show ?thesis using that by (simp add: refs_def)
  qed
  show ?thesis
    unfolding during
    using c[of "ImageMessage x"] c[of "StickerMessage x"] c[of "VideoMessage x"]
      c[of "AudioMessage x"] c[of "DocumentMessage x"]
      count_media_refs[of "Message evt" x] count_image_refs[of "GetImageMessage (Message evt)" x]
      two nf eq
    by auto
qed

text \<open>
  C4 as stated fails: for an image message that is forwarded to the webhook the image
  is downloaded twice.
\<close>

theorem image_downloaded_twice:
  "downloads (handler sample_env sample_cfg (events_Message image_evt) start_world)
     = [ImageMessage sample_image, ImageMessage sample_image]
   \<and> count_list (downloads (handler sample_env sample_cfg (events_Message image_evt) start_world))
        (ImageMessage sample_image) = 2"
  by (simp add: forward_defs sample_defs sample_names auto_replies_def forwards_message_def
        isGroupJid_def isFromMySelf_def extractPhoneNumber_leading_run is_digit_def)

theorem media_download_counts_witness:
  "forwards_message sample_env sample_cfg image_evt
   \<and> GetImageMessage (Message image_evt) = Some sample_image
   \<and> count_list (downloads_during start_world
                   (handler sample_env sample_cfg (events_Message image_evt) start_world))
        (ImageMessage sample_image) = 2"
proof -
  have h: "forwards_message sample_env sample_cfg image_evt
           \<and> GetImageMessage (Message image_evt) = Some sample_image"
    by (simp add: sample_defs forwards_message_def isFromMySelf_def
          extractPhoneNumber_leading_run is_digit_def)
  with media_download_counts [of sample_env sample_cfg image_evt start_world _ sample_image]
  show ?thesis by blast
qed

subsection \<open>Media fields of a forwarded message\<close>






lemma extract_into_Some_no_write:
  assumes "\<And>p d. WriteFile e p d \<noteq> None"
  shows "\<exists>x. fst (extract_into e cfg k (Some m) b w) = Inl x"
proof (cases "Download e m")
  case (Inl err)
  then show ?thesis by (rule extract_into_download_fails)
next
  case (Inr bytes)
  let ?path = "PathMedia cfg @ ''/'' @ show_int (Now_Unix e (generated w)) @ ''-''
                 @ uuid_NewString e (generated w)
                 @ file_extension (ExtensionsByType e) (MimeType (media_info m))"
  from assms[of ?path bytes] obtain err where "WriteFile e ?path bytes = Some err" by auto
  with Inr show ?thesis
    by (simp add: extract_into_def ExtractMedia_def Let_def)
qed









subsection \<open>Extraction of an absent attachment\<close>

lemma media_refs_Nil:
  "media_refs msg = [] \<longleftrightarrow>
     GetImageMessage msg = None \<and> GetStickerMessage msg = None \<and> GetVideoMessage msg = None
     \<and> GetAudioMessage msg = None \<and> GetDocumentMessage msg = None"
  by (auto simp: media_refs_def refs_def split: option.splits)

lemma forwardToWebhook_no_media:
  "media_refs (Message evt) = [] \<Longrightarrow>
     forwardToWebhook e cfg evt w = post_body e cfg (message_body evt) w"
  by (simp add: media_refs_Nil forwardToWebhook_def extract_into_def)

lemma handler_text_only:
  assumes "media_refs (Message evt) = []"
  shows "downloads (handler e cfg (events_Message evt) w) = downloads w
         \<and> written (handler e cfg (events_Message evt) w) = written w"
proof -
  have "GetImageMessage (Message evt) = None" using assms by (simp add: media_refs_Nil)
  then show ?thesis
    by (simp add: Let_def forwardToWebhook_no_media[OF assms] post_body_frame)
qed

text \<open>
  C9. Called with the nil interface, \<open>ExtractMedia\<close> returns the empty struct and no
  error and leaves the world as it was: nothing is downloaded and no file is written.
  For a message without any attachment the handler does not even call it: handling the
  event downloads nothing and writes no file.
\<close>

theorem ExtractMedia_nil:
  "ExtractMedia e storageLocation None w
     = ((\<lparr>MediaPath = [], MimeType = [], Caption = []\<rparr>, None), w)
   \<and> (media_refs (Message evt) = [] \<longrightarrow>
        downloads (handler e cfg (events_Message evt) w) = downloads w
        \<and> written (handler e cfg (events_Message evt) w) = written w)"
  using handler_text_only[of evt e cfg w]
  by (simp add: ExtractMedia_def empty_media_def del: handler.simps)

theorem ExtractMedia_nil_witness:
  "ExtractMedia sample_env ''statics/media'' None start_world
     = ((\<lparr>MediaPath = [], MimeType = [], Caption = []\<rparr>, None), start_world)
   \<and> media_refs (Message private_evt) = []
   \<and> downloads (handler sample_env sample_cfg (events_Message private_evt) start_world) = []
   \<and> written (handler sample_env sample_cfg (events_Message private_evt) start_world) = []"
proof -
  have m: "media_refs (Message private_evt) = []"
    by (simp add: media_refs_Nil private_evt_def text_message_def)
  have z: "downloads start_world = [] \<and> written start_world = []"
    by (simp add: start_world_def)
  from m z ExtractMedia_nil [of sample_env "''statics/media''" start_world private_evt sample_cfg]
  show ?thesis by (simp del: handler.simps)
qed

subsection \<open>Further properties of the handler\<close>

text \<open>
  X1. A message event is not forwarded to the webhook when no webhook is configured, when
  its source string contains \<open>broadcast\<close>, or when it comes from the account itself: no
  request is made.
\<close>

theorem message_not_forwarded:
  "(WhatsappWebhook cfg = [] \<or> Contains (Info_SourceString evt) ''broadcast''
      \<or> isFromMySelf (Store_ID e) (Info_SourceString evt))
   \<longrightarrow> posts (handler e cfg (events_Message evt) w) = posts w"
  by (auto simp: Let_def forwards_message_def ExtractMedia_frame split: option.splits)

theorem message_not_forwarded_witness:
  "Contains (Info_SourceString broadcast_evt) ''broadcast''
   \<and> posts (handler sample_env sample_cfg (events_Message broadcast_evt) start_world) = []"
proof -
  have b: "Contains (Info_SourceString broadcast_evt) ''broadcast''"
    by (simp add: broadcast_evt_def private_evt_def)
  have z: "posts start_world = []" by (simp add: start_world_def)
  from b z message_not_forwarded [of sample_cfg broadcast_evt sample_env start_world]
  show ?thesis by (simp del: handler.simps)
qed

text \<open>
  X2. A delivered receipt with an empty list of message ids makes the handler panic: line
  274 reads \<open>evt.MessageIDs[0]\<close> for the log line before anything is forwarded.
\<close>

theorem delivered_receipt_without_ids_panics:
  "Type evt = ReceiptTypeDelivered \<and> MessageIDs evt = [] \<longrightarrow>
     handler e cfg (events_Receipt evt) w
       = w\<lparr>panicked := Some ''runtime error: index out of range [0] with length 0''\<rparr>"
  by simp

theorem delivered_receipt_without_ids_panics_witness:
  "panicked (handler sample_env sample_cfg (events_Receipt (sample_receipt\<lparr>MessageIDs := []\<rparr>)) start_world)
     = Some ''runtime error: index out of range [0] with length 0''
   \<and> posts (handler sample_env sample_cfg (events_Receipt (sample_receipt\<lparr>MessageIDs := []\<rparr>)) start_world)
     = []"
proof -
  have t: "Type (sample_receipt\<lparr>MessageIDs := []\<rparr>) = ReceiptTypeDelivered
           \<and> MessageIDs (sample_receipt\<lparr>MessageIDs := []\<rparr>) = []"
    by (simp add: sample_receipt_def)
  have z: "posts start_world = []" by (simp add: start_world_def)
  from t z delivered_receipt_without_ids_panics
    [of "sample_receipt\<lparr>MessageIDs := []\<rparr>" sample_env sample_cfg start_world]
  show ?thesis by (simp del: handler.simps)
qed

text \<open>
  X3. A receipt whose source is the account itself is not forwarded: handling it changes
  nothing (given a list of message ids that is not empty).
\<close>

theorem receipt_from_self_not_forwarded:
  "isFromMySelf (Store_ID e) (Receipt_SourceString evt) \<and> MessageIDs evt \<noteq> [] \<longrightarrow>
     handler e cfg (events_Receipt evt) w = w"
  by (auto simp: forwards_receipt_def split: list.splits)

theorem receipt_from_self_not_forwarded_witness:
  "isFromMySelf (Store_ID sample_env) ''628999000111@s.whatsapp.net''
   \<and> handler sample_env sample_cfg
        (events_Receipt (sample_receipt\<lparr>Receipt_SourceString := ''628999000111@s.whatsapp.net''\<rparr>))
        start_world = start_world"
proof -
  have s: "isFromMySelf (Store_ID sample_env)
             (Receipt_SourceString (sample_receipt\<lparr>Receipt_SourceString := ''628999000111@s.whatsapp.net''\<rparr>))
           \<and> MessageIDs (sample_receipt\<lparr>Receipt_SourceString := ''628999000111@s.whatsapp.net''\<rparr>) \<noteq> []"
    by (simp add: sample_receipt_def sample_env_def isFromMySelf_def extractPhoneNumber_leading_run
          is_digit_def)
  from s receipt_from_self_not_forwarded
    [of sample_env "sample_receipt\<lparr>Receipt_SourceString := ''628999000111@s.whatsapp.net''\<rparr>"
        sample_cfg start_world]
  show ?thesis by (simp del: handler.simps)
qed

end
